theory Spec2Isabelle
  imports Main "HOL-Library.Word"
begin

section \<open>JavaScript values\<close>

text \<open>
  The connector of \<^verbatim>\<open>src/lib/connectors/http.js\<close> is JavaScript on Node. Its
  values are modelled by a datatype of the values the code handles, with JavaScript's
  truthiness and \<^verbatim>\<open>instanceof Error\<close> written out.

  A JavaScript string is a sequence of UTF-16 code units. The values of HTTP headers
  reach the code as Latin-1 strings (one code unit below 256 per byte), so header names
  and values are \<^typ>\<open>string\<close>.
\<close>

type_synonym jsstring = "16 word list"

definition js :: "string \<Rightarrow> jsstring" where
  "js s = map of_char s"

datatype jsval =
    Undefined
  | Null
  | JBool bool
  | JNum int
  | JInfinity
  | JStr jsstring
  | JError string jsstring
  | JHeaders "(string \<times> string) list"
  | JClientRequest
  | JObject nat

text \<open>
  \<open>JError cls msg\<close> is an instance of \<^verbatim>\<open>Error\<close> or of a subclass of it (\<open>cls\<close> is the
  class name), \<open>JHeaders\<close> a header object, \<open>JClientRequest\<close> the reference to the
  request object that \<^verbatim>\<open>hand.request\<close> returned, \<open>JObject n\<close> any other object or
  function (they are all truthy and none is an Error).
\<close>

fun truthy :: "jsval \<Rightarrow> bool" where
  "truthy Undefined = False"
| "truthy Null = False"
| "truthy (JBool b) = b"
| "truthy (JNum n) = (n \<noteq> 0)"
| "truthy JInfinity = True"
| "truthy (JStr s) = (s \<noteq> [])"
| "truthy (JError c m) = True"
| "truthy (JHeaders hs) = True"
| "truthy JClientRequest = True"
| "truthy (JObject n) = True"

fun instanceof_Error :: "jsval \<Rightarrow> bool" where
  "instanceof_Error (JError c m) = True"
| "instanceof_Error v = False"

text \<open>\<^verbatim>\<open>s || d\<close> for an optional string: the empty string and \<^verbatim>\<open>undefined\<close> are falsy.\<close>

fun or_string :: "jsstring option \<Rightarrow> jsstring \<Rightarrow> jsstring" where
  "or_string None d = d"
| "or_string (Some s) d = (if s = [] then d else s)"

text \<open>
  \<^verbatim>\<open>String.prototype.toLowerCase\<close> on a Latin-1 string: the letters A to Z and the
  capital letters of the range 0xC0 to 0xDE (0xD7, the multiplication sign, is not one)
  get bit 5 set; every other character is its own lower case.
\<close>

definition is_upper :: "char \<Rightarrow> bool" where
  "is_upper c = (let n = (of_char c :: nat) in
     (65 \<le> n \<and> n \<le> 90) \<or> (192 \<le> n \<and> n \<le> 222 \<and> n \<noteq> 215))"

definition lower_char :: "char \<Rightarrow> char" where
  "lower_char c =
     (if is_upper c
      then Char (digit0 c) (digit1 c) (digit2 c) (digit3 c) (digit4 c) True (digit6 c) (digit7 c)
      else c)"

definition toLowerCase :: "string \<Rightarrow> string" where
  "toLowerCase s = map lower_char s"

text \<open>
  \<^verbatim>\<open>Buffer.byteLength(s, 'utf8')\<close>: the number of bytes of the UTF-8 encoding of a
  string of UTF-16 code units. A surrogate pair is one code point of four bytes; a
  surrogate on its own is encoded as U+FFFD, three bytes.
\<close>

definition is_high_surrogate :: "16 word \<Rightarrow> bool" where
  "is_high_surrogate u = (0xD800 \<le> u \<and> u \<le> 0xDBFF)"

definition is_low_surrogate :: "16 word \<Rightarrow> bool" where
  "is_low_surrogate u = (0xDC00 \<le> u \<and> u \<le> 0xDFFF)"

fun byteLength :: "jsstring \<Rightarrow> nat" where
  "byteLength [] = 0"
| "byteLength [u] = (if u < 0x80 then 1 else if u < 0x800 then 2 else 3)"
| "byteLength (u # v # us) =
     (if u < 0x80 then 1 + byteLength (v # us)
      else if u < 0x800 then 2 + byteLength (v # us)
      else if is_high_surrogate u \<and> is_low_surrogate v then 4 + byteLength us
      else 3 + byteLength (v # us))"

section \<open>The host, the configuration and the pool\<close>

text \<open>
  The host object is the caller's (\<^verbatim>\<open>lib/host.js\<close> is not part of this file): the
  connector reads its attributes and calls its two accessors, which are fields here.
\<close>

record host =
  host_protocol :: jsstring
  host_host :: jsstring
  host_port :: jsval
  host_path :: "jsstring option"
  host_ssl :: "(string \<times> jsval) list"
  getHeaders :: "jsval \<Rightarrow> jsval"
  getQuery :: "jsval \<Rightarrow> jsval"

type_synonym socket = nat

datatype agent_class = NodeHttpAgent | NodeHttpsAgent | AgentKeepAlive | AgentKeepAliveHttps

text \<open>
  The pool (``agent''). \<open>sockets\<close> and \<open>freeSockets\<close> map a host key to an array of
  sockets, in the order of the object's keys; an array entry that is not a socket
  (falsy) is \<open>None\<close>. \<open>agent_options\<close> is the object the constructor was given.
\<close>

record agent =
  agent_class :: agent_class
  agent_options :: "(string \<times> jsval) list"
  minSockets :: jsval
  maxSockets :: jsval
  requests :: "(string \<times> jsval list) list"
  sockets :: "(string \<times> socket option list) list"
  freeSockets :: "(string \<times> socket option list) list"

text \<open>
  The configuration object. A field that the caller did not set is \<open>Undefined\<close>;
  \<open>createNodeAgent\<close> is the pool the override returns when the caller supplied one
  (the override is the caller's function: only its result is modelled).
\<close>

record config =
  cfg_maxSockets :: jsval
  cfg_keepAlive :: jsval
  cfg_keepAliveInterval :: jsval
  cfg_keepAliveMaxFreeSockets :: jsval
  cfg_keepAliveFreeSocketTimeout :: jsval
  cfg_forever :: jsval
  createNodeAgent :: "agent option"

text \<open>\<^verbatim>\<open>_.defaults\<close> assigns a default to every property that is \<^verbatim>\<open>undefined\<close>.\<close>

definition default_to :: "jsval \<Rightarrow> jsval \<Rightarrow> jsval" where
  "default_to v d = (if v = Undefined then d else v)"

definition defaults :: "config \<Rightarrow> config" where
  "defaults c = c
     \<lparr> cfg_maxSockets := default_to (cfg_maxSockets c) JInfinity,
       cfg_keepAlive := default_to (cfg_keepAlive c) (JBool True),
       cfg_keepAliveInterval := default_to (cfg_keepAliveInterval c) (JNum 1000),
       cfg_keepAliveMaxFreeSockets := default_to (cfg_keepAliveMaxFreeSockets c) (JNum 256),
       cfg_keepAliveFreeSocketTimeout :=
         default_to (cfg_keepAliveFreeSocketTimeout c) (JNum 60000) \<rparr>"

text \<open>
  \<^verbatim>\<open>handles[this.host.protocol]\<close>. \<^verbatim>\<open>handles\<close> is an object literal with the two own
  properties \<^verbatim>\<open>http\<close> and \<^verbatim>\<open>https\<close>; a property read that finds no own property goes
  on to \<^verbatim>\<open>Object.prototype\<close>, whose members (functions, and the prototype object
  itself for \<^verbatim>\<open>__proto__\<close>) are all truthy. \<open>None\<close> is \<^verbatim>\<open>undefined\<close>.
\<close>

datatype hand_module = HttpModule | HttpsModule | ObjectPrototypeMember jsstring

definition object_prototype_keys :: "string list" where
  "object_prototype_keys =
     [''constructor'', ''__defineGetter__'', ''__defineSetter__'', ''hasOwnProperty'',
      ''__lookupGetter__'', ''__lookupSetter__'', ''isPrototypeOf'',
      ''propertyIsEnumerable'', ''toString'', ''valueOf'', ''__proto__'',
      ''toLocaleString'']"

definition handles :: "jsstring \<Rightarrow> hand_module option" where
  "handles p =
     (if p = js ''http'' then Some HttpModule
      else if p = js ''https'' then Some HttpsModule
      else if p \<in> set (map js object_prototype_keys) then Some (ObjectPrototypeMember p)
      else None)"

text \<open>\<^verbatim>\<open>this.hand.Agent\<close>: the class of the module, \<^verbatim>\<open>undefined\<close> on anything else.\<close>

fun hand_Agent :: "hand_module \<Rightarrow> agent_class option" where
  "hand_Agent HttpModule = Some NodeHttpAgent"
| "hand_Agent HttpsModule = Some NodeHttpsAgent"
| "hand_Agent (ObjectPrototypeMember k) = None"

datatype listener = OnStatusSet

text \<open>
  What the drain asks of the pool and of the sockets: \<^verbatim>\<open>agent.removeSocket(socket,
  parseUrl(host))\<close> and \<^verbatim>\<open>socket.destroy()\<close> are Node's; the model records the calls in
  order. \<open>ParseUrl k\<close> stands for the result of \<^verbatim>\<open>url.parse\<close> on the host key \<open>k\<close>.
\<close>

datatype parsed_url = ParseUrl string

datatype pool_call = RemoveSocket socket parsed_url | Destroy socket

record connection =
  host :: host
  hand :: hand_module
  useSsl :: bool
  status_set_listeners :: "listener list"

record connector = connection +
  agent :: agent
  pool_calls :: "pool_call list"

text \<open>
  \<^verbatim>\<open>_.merge(agentConfig, this.host.ssl)\<close> on flat objects: every property of the
  source replaces the destination's, except that an \<^verbatim>\<open>undefined\<close> source value leaves
  an existing destination property alone.
\<close>

fun merge_prop :: "(string \<times> jsval) \<Rightarrow> (string \<times> jsval) list \<Rightarrow> (string \<times> jsval) list" where
  "merge_prop (k, v) dst =
     (if k \<in> fst ` set dst
      then (if v = Undefined then dst
            else map (\<lambda>(k', v'). if k' = k then (k', v) else (k', v')) dst)
      else dst @ [(k, v)])"

definition merge :: "(string \<times> jsval) list \<Rightarrow> (string \<times> jsval) list \<Rightarrow> (string \<times> jsval) list" where
  "merge dst src = fold merge_prop src dst"

definition makeAgentConfig :: "connection \<Rightarrow> config \<Rightarrow> (string \<times> jsval) list" where
  "makeAgentConfig this config =
     (let agentConfig =
        [(''keepAlive'', cfg_keepAlive config),
         (''keepAliveMsecs'', cfg_keepAliveInterval config),
         (''maxSockets'', cfg_maxSockets config),
         (''maxFreeSockets'', cfg_keepAliveMaxFreeSockets config),
         (''freeSocketKeepAliveTimeout'', cfg_keepAliveFreeSocketTimeout config)]
      in if useSsl this then merge agentConfig (host_ssl (host this)) else agentConfig)"

text \<open>
  \<^verbatim>\<open>new Agent(options)\<close>, Node's and agentkeepalive's constructor: a pool with no
  sockets and no queued requests, whose \<^verbatim>\<open>maxSockets\<close> is the option's value or, when
  that is falsy, unbounded.
\<close>

definition lookup_prop :: "(string \<times> jsval) list \<Rightarrow> string \<Rightarrow> jsval" where
  "lookup_prop obj k = (case map_of obj k of None \<Rightarrow> Undefined | Some v \<Rightarrow> v)"

definition new_Agent :: "agent_class \<Rightarrow> (string \<times> jsval) list \<Rightarrow> agent" where
  "new_Agent cls opts =
     \<lparr> agent_class = cls, agent_options = opts, minSockets = Undefined,
       maxSockets = (if truthy (lookup_prop opts ''maxSockets'')
                     then lookup_prop opts ''maxSockets'' else JInfinity),
       requests = [], sockets = [], freeSockets = [] \<rparr>"

text \<open>
  \<^verbatim>\<open>HttpConnector.prototype.createAgent\<close>. It returns the pool and \<^verbatim>\<open>this\<close> with the
  listener it registered; \<^verbatim>\<open>new Agent\<close> on \<^verbatim>\<open>undefined\<close> throws a TypeError.
\<close>

definition createAgent :: "connection \<Rightarrow> config \<Rightarrow> jsval + (agent \<times> connection)" where
  "createAgent this config0 =
     (let Agent = hand_Agent (hand this);
          config = (if truthy (cfg_forever config0)
                    then config0 \<lparr> cfg_keepAlive := cfg_forever config0 \<rparr> else config0);
          (Agent', this') =
            (if truthy (cfg_keepAlive config)
             then (Some (if useSsl this then AgentKeepAliveHttps else AgentKeepAlive),
                   this \<lparr> status_set_listeners := status_set_listeners this @ [OnStatusSet] \<rparr>)
             else (Agent, this))
      in case Agent' of
           None \<Rightarrow> Inl (JError ''TypeError'' (js ''Agent is not a constructor''))
         | Some cls \<Rightarrow> Inr (new_Agent cls (makeAgentConfig this' config), this'))"

text \<open>
  The constructor \<^verbatim>\<open>HttpConnector(host, config)\<close>: \<open>Inl\<close> is the exception it throws.
  (\<^verbatim>\<open>ConnectionAbstract.call\<close> stores the host; it is not part of this file.)
\<close>

definition invalid_protocol :: "jsstring \<Rightarrow> jsval" where
  "invalid_protocol p =
     JError ''TypeError''
       (js ''Invalid protocol '' @ js [CHR 0x22] @ p @ js [CHR 0x22] @
        js '', expected one of http, https'')"

definition HttpConnector :: "host \<Rightarrow> config \<Rightarrow> jsval + connector" where
  "HttpConnector h config0 =
     (case handles (host_protocol h) of
        None \<Rightarrow> Inl (invalid_protocol (host_protocol h))
      | Some hnd \<Rightarrow>
          (let this = \<lparr> host = h, hand = hnd, useSsl = (host_protocol h = js ''https''),
                        status_set_listeners = [] \<rparr>;
               config = defaults config0
           in case createNodeAgent config of
                Some a \<Rightarrow>
                  Inr \<lparr> host = h, hand = hnd, useSsl = useSsl this,
                        status_set_listeners = status_set_listeners this,
                        agent = a, pool_calls = [] \<rparr>
              | None \<Rightarrow>
                  (case createAgent this config of
                     Inl e \<Rightarrow> Inl e
                   | Inr (a, this') \<Rightarrow>
                       Inr \<lparr> host = h, hand = hnd, useSsl = useSsl this',
                             status_set_listeners = status_set_listeners this',
                             agent = a, pool_calls = [] \<rparr>)))"

section \<open>The drain\<close>

text \<open>
  \<^verbatim>\<open>HttpConnector.prototype.onStatusSet\<close>. \<open>collectSockets\<close> is the inner function of the
  same name: it appends to \<open>toRemove\<close> the truthy entries of one array, each with the
  host key of the array.
\<close>

definition collectSockets :: "(string \<times> socket) list \<Rightarrow> string \<times> socket option list \<Rightarrow> (string \<times> socket) list" where
  "collectSockets toRemove entry =
     (case entry of (host_key, socks) \<Rightarrow>
        fold (\<lambda>s acc. case s of Some x \<Rightarrow> acc @ [(host_key, x)] | None \<Rightarrow> acc) socks toRemove)"

definition remove_and_destroy :: "(string \<times> socket) \<Rightarrow> pool_call list" where
  "remove_and_destroy args =
     (case args of (host_key, sock) \<Rightarrow> [RemoveSocket sock (ParseUrl host_key), Destroy sock])"

definition onStatusSet :: "jsstring \<Rightarrow> connector \<Rightarrow> connector" where
  "onStatusSet status this =
     (if status = js ''closed''
      then (let agent0 = agent this;
                toRemove0 = [];
                agent1 = agent0 \<lparr> minSockets := JNum 0, maxSockets := JNum 0 \<rparr>;
                agent2 = agent1 \<lparr> requests := [] \<rparr>;
                toRemove1 = fold (\<lambda>e acc. collectSockets acc e) (sockets agent2) toRemove0;
                toRemove2 = fold (\<lambda>e acc. collectSockets acc e) (freeSockets agent2) toRemove1
            in this \<lparr> agent := agent2,
                      pool_calls := fold (\<lambda>args acc. acc @ remove_and_destroy args)
                                      toRemove2 (pool_calls this) \<rparr>)
      else this)"

text \<open>
  Modelled from the spec: the lifecycle notification of the base class
  (\<^verbatim>\<open>lib/connection.js\<close>, which is not among the sources). The new status is emitted
  as \<^verbatim>\<open>'status set'\<close> to the listeners that were registered with
  \<^verbatim>\<open>this.on('status set', ...)\<close>; the closed notification is the last of an instance's
  useful life, and after it no listener is left.
\<close>

definition emit_status_set :: "jsstring \<Rightarrow> connector \<Rightarrow> connector" where
  "emit_status_set status this =
     (let this' = fold (\<lambda>l c. case l of OnStatusSet \<Rightarrow> onStatusSet status c)
                    (status_set_listeners this) this
      in if status = js ''closed'' then this' \<lparr> status_set_listeners := [] \<rparr> else this')"

section \<open>One request\<close>

text \<open>
  The request specification \<^verbatim>\<open>params\<close> and the wire parameters \<^verbatim>\<open>reqParams\<close>. A
  field of \<^verbatim>\<open>params\<close> that is absent is \<open>None\<close> (\<open>Undefined\<close> for the two that are
  only handed on to the host). \<^verbatim>\<open>qs.stringify\<close> is Node's and is a parameter.
\<close>

record params =
  p_method :: "jsstring option"
  p_path :: "jsstring option"
  p_query :: jsval
  p_headers :: jsval
  p_body :: "jsstring option"

record req_params =
  rp_method :: jsstring
  rp_protocol :: jsstring
  rp_hostname :: jsstring
  rp_port :: jsval
  rp_path :: jsstring
  rp_headers :: jsval
  rp_agent :: agent

definition makeReqParams :: "(jsval \<Rightarrow> jsstring) \<Rightarrow> connector \<Rightarrow> params \<Rightarrow> req_params" where
  "makeReqParams qs_stringify this params =
     (let reqParams =
            \<lparr> rp_method = or_string (p_method params) (js ''GET''),
              rp_protocol = host_protocol (host this) @ js '':'',
              rp_hostname = host_host (host this),
              rp_port = host_port (host this),
              rp_path = or_string (host_path (host this)) [] @ or_string (p_path params) [],
              rp_headers = getHeaders (host this) (p_headers params),
              rp_agent = agent this \<rparr>;
          reqParams1 = (if rp_path reqParams = []
                        then reqParams \<lparr> rp_path := js ''/'' \<rparr> else reqParams);
          query = getQuery (host this) (p_query params)
      in if truthy query
         then reqParams1 \<lparr> rp_path := rp_path reqParams1 @ js ''?'' @ qs_stringify query \<rparr>
         else reqParams1)"

text \<open>
  The request object of Node (\<^verbatim>\<open>http.ClientRequest\<close>), as far as the code drives it:
  the options it was created with, the headers set with \<^verbatim>\<open>setHeader\<close> (in order), the
  two socket options, the argument of \<^verbatim>\<open>end\<close> (\<open>None\<close> before the call, \<open>Some None\<close>
  for \<^verbatim>\<open>end()\<close>) and whether it was aborted. \<^verbatim>\<open>abort()\<close> marks the request as aborted;
  on a request that is aborted already it changes nothing.
\<close>

record client_request =
  cr_options :: req_params
  cr_headers :: "(string \<times> jsval) list"
  cr_noDelay :: bool
  cr_socketKeepAlive :: bool
  cr_end :: "jsstring option option"
  cr_aborted :: bool

definition setHeader :: "string \<Rightarrow> jsval \<Rightarrow> client_request \<Rightarrow> client_request" where
  "setHeader name v r = r \<lparr> cr_headers := cr_headers r @ [(name, v)] \<rparr>"

definition abort :: "client_request \<Rightarrow> client_request" where
  "abort r = r \<lparr> cr_aborted := True \<rparr>"

text \<open>The header a request emits: the value of the last \<^verbatim>\<open>setHeader\<close> for the name.\<close>

definition emitted_header :: "client_request \<Rightarrow> string \<Rightarrow> jsval option" where
  "emitted_header r name = map_of (rev (cr_headers r)) name"

text \<open>
  \<^verbatim>\<open>this.hand.request(reqParams, callback)\<close>: a new request object; \<open>None\<close> when
  \<^verbatim>\<open>this.hand\<close> has no \<^verbatim>\<open>request\<close> function.
\<close>

fun hand_request :: "hand_module \<Rightarrow> req_params \<Rightarrow> client_request option" where
  "hand_request (ObjectPrototypeMember k) rp = None"
| "hand_request h rp =
     Some \<lparr> cr_options = rp, cr_headers = [], cr_noDelay = False, cr_socketKeepAlive = False,
            cr_end = None, cr_aborted = False \<rparr>"

text \<open>What \<^verbatim>\<open>this.log.trace\<close> is called with.\<close>

record log_entry =
  log_method :: "jsstring option"
  log_reqParams :: req_params
  log_body :: "jsstring option"
  log_response :: jsval
  log_status :: int

text \<open>
  The response stream the handlers are attached to: \<open>piped\<close> says that \<^verbatim>\<open>incoming\<close>
  was replaced by \<^verbatim>\<open>incoming.pipe(zlib.createUnzip())\<close>, \<open>response\<close> is the variable of
  that name, and the two flags say whether the \<^verbatim>\<open>once\<close> listeners for \<^verbatim>\<open>'error'\<close> and
  \<^verbatim>\<open>'end'\<close> are still attached.
\<close>

record incoming_stream =
  piped :: bool
  response :: jsstring
  stream_error_listener :: bool
  end_listener :: bool

text \<open>
  The variables that the closures of \<^verbatim>\<open>HttpConnector.prototype.request\<close> share
  (\<open>request_var\<close> is the variable \<^verbatim>\<open>request\<close>, which holds the request object or null),
  the request object, the listeners on it, and what the request has done to the outside:
  the calls of the wrapper \<^verbatim>\<open>cb\<close> and those of them that reached the caller's
  callback \<^verbatim>\<open>_cb\<close> (each with its argument list), the calls of the log, and the
  \<^verbatim>\<open>'error'\<close> events that found no listener.
\<close>

record req_state =
  rs_params :: params
  reqParams :: req_params
  request_var :: jsval
  client_request :: client_request
  status :: int
  headers :: "(string \<times> string) list"
  cb_called :: bool
  cb_calls :: "jsval list list"
  request_error_listener :: bool
  response_listener :: bool
  incoming :: "incoming_stream option"
  callbacks :: "jsval list list"
  trace_log :: "log_entry list"
  unhandled_errors :: "jsval list"

text \<open>\<^verbatim>\<open>cb = _.once(_cb)\<close>: only the first call reaches \<^verbatim>\<open>_cb\<close>.\<close>

definition cb :: "jsval list \<Rightarrow> req_state \<Rightarrow> req_state" where
  "cb args s0 =
     (let s = s0 \<lparr> cb_calls := cb_calls s0 @ [args] \<rparr>
      in if cb_called s then s
         else s \<lparr> cb_called := True, callbacks := callbacks s @ [args] \<rparr>)"

definition logRequest :: "jsval \<Rightarrow> req_state \<Rightarrow> req_state" where
  "logRequest resp s =
     s \<lparr> trace_log := trace_log s @
           [\<lparr> log_method = p_method (rs_params s), log_reqParams = reqParams s,
              log_body = p_body (rs_params s), log_response = resp,
              log_status = status s \<rparr>] \<rparr>"

definition cleanUp :: "jsval \<Rightarrow> jsval \<Rightarrow> req_state \<Rightarrow> req_state" where
  "cleanUp err0 resp s0 =
     (let s1 = (if truthy (request_var s0)
                then s0 \<lparr> request_error_listener := False, request_var := Null \<rparr>
                else s0);
          err = (if instanceof_Error err0 = False then Undefined else err0);
          s2 = logRequest (request_var s1) s1
      in if truthy err then cb [err] s2
         else cb [err, if truthy resp then resp else Undefined,
                  JNum (status s2), JHeaders (headers s2)] s2)"

text \<open>The callback given to \<^verbatim>\<open>hand.request\<close>, called with the response.\<close>

definition content_encoding :: "(string \<times> string) list \<Rightarrow> string" where
  "content_encoding hs =
     toLowerCase (case map_of hs ''content-encoding'' of None \<Rightarrow> [] | Some v \<Rightarrow> v)"

definition on_response :: "int \<Rightarrow> (string \<times> string) list \<Rightarrow> req_state \<Rightarrow> req_state" where
  "on_response statusCode hs s =
     (let encoding = content_encoding hs
      in s \<lparr> status := statusCode, headers := hs,
             incoming := Some \<lparr> piped = (encoding = ''gzip'' \<or> encoding = ''deflate''),
                                 response = [], stream_error_listener = True,
                                 end_listener = True \<rparr> \<rparr>)"

text \<open>The function that \<^verbatim>\<open>request\<close> returns.\<close>

definition cancel :: "req_state \<Rightarrow> req_state" where
  "cancel s =
     (if truthy (request_var s)
      then s \<lparr> client_request := abort (client_request s) \<rparr> else s)"

text \<open>
  \<^verbatim>\<open>HttpConnector.prototype.request\<close> up to its \<^verbatim>\<open>return\<close>: \<open>Inl\<close> is the exception
  of calling \<^verbatim>\<open>this.hand.request\<close> when there is no such function. An absent body is
  \<^verbatim>\<open>undefined\<close>, which is falsy as the empty string is.
\<close>

definition request :: "(jsval \<Rightarrow> jsstring) \<Rightarrow> connector \<Rightarrow> params \<Rightarrow> jsval + req_state" where
  "request qs_stringify this params =
     (let reqParams = makeReqParams qs_stringify this params
      in case hand_request (hand this) reqParams of
           None \<Rightarrow> Inl (JError ''TypeError'' (js ''this.hand.request is not a function''))
         | Some r0 \<Rightarrow>
             (let r1 = r0 \<lparr> cr_noDelay := True \<rparr>;
                  r2 = r1 \<lparr> cr_socketKeepAlive := True \<rparr>;
                  r3 = (case p_body params of
                          None \<Rightarrow>
                            (setHeader ''Content-Length'' (JNum 0) r2) \<lparr> cr_end := Some None \<rparr>
                        | Some body \<Rightarrow>
                            if truthy (JStr body)
                            then (setHeader ''Content-Length'' (JNum (int (byteLength body))) r2)
                                   \<lparr> cr_end := Some (Some body) \<rparr>
                            else (setHeader ''Content-Length'' (JNum 0) r2)
                                   \<lparr> cr_end := Some None \<rparr>)
              in Inr \<lparr> rs_params = params, reqParams = reqParams,
                       request_var = JClientRequest, client_request = r3,
                       status = 0, headers = [], cb_called = False, cb_calls = [],
                       request_error_listener = True, response_listener = True,
                       incoming = None, callbacks = [], trace_log = [],
                       unhandled_errors = [] \<rparr>))"

text \<open>
  What happens to a request after \<^verbatim>\<open>request\<close> has returned: Node delivers the
  response, chunks of the decoded body, the end of the stream, an error on the stream or
  on the request, and the caller may call the cancellation function. A \<^verbatim>\<open>once\<close>
  listener is detached before it runs. The stream events of a request that has no
  response yet have no stream to come from and change nothing; an \<^verbatim>\<open>'error'\<close> that
  finds no listener is recorded as unhandled.
\<close>

datatype event =
    Response int "(string \<times> string) list"
  | Data jsstring
  | End
  | StreamError jsval
  | RequestError jsval
  | CallCancel

fun step :: "event \<Rightarrow> req_state \<Rightarrow> req_state" where
  "step (Response st hs) s =
     (if response_listener s then on_response st hs (s \<lparr> response_listener := False \<rparr>) else s)"
| "step (Data d) s =
     (case incoming s of
        None \<Rightarrow> s
      | Some i \<Rightarrow> s \<lparr> incoming := Some (i \<lparr> response := response i @ d \<rparr>) \<rparr>)"
| "step End s =
     (case incoming s of
        None \<Rightarrow> s
      | Some i \<Rightarrow>
          if end_listener i
          then cleanUp Undefined (JStr (response i))
                 (s \<lparr> incoming := Some (i \<lparr> end_listener := False \<rparr>) \<rparr>)
          else s)"
| "step (StreamError e) s =
     (case incoming s of
        None \<Rightarrow> s
      | Some i \<Rightarrow>
          if stream_error_listener i
          then cleanUp e Undefined
                 (s \<lparr> incoming := Some (i \<lparr> stream_error_listener := False \<rparr>) \<rparr>)
          else s \<lparr> unhandled_errors := unhandled_errors s @ [e] \<rparr>)"
| "step (RequestError e) s =
     (if request_error_listener s
      then cleanUp e Undefined (s \<lparr> request_error_listener := False \<rparr>)
      else s \<lparr> unhandled_errors := unhandled_errors s @ [e] \<rparr>)"
| "step CallCancel s = cancel s"

fun run :: "event list \<Rightarrow> req_state \<Rightarrow> req_state" where
  "run [] s = s"
| "run (e # es) s = run es (step e s)"

section \<open>Notions of the specification and example inputs\<close>

text \<open>
  The sockets a pool tracks, in use first and idle after them, each with the host key
  of the array it is in.
\<close>

definition tracked_sockets :: "agent \<Rightarrow> (string \<times> socket) list" where
  "tracked_sockets a =
     concat (map (\<lambda>(host_key, socks). map (\<lambda>s. (host_key, s)) (List.map_filter id socks))
               (sockets a @ freeSockets a))"

text \<open>The sockets that were forcibly terminated, in the order of the calls.\<close>

fun destroyed :: "pool_call list \<Rightarrow> socket list" where
  "destroyed [] = []"
| "destroyed (Destroy s # calls) = s # destroyed calls"
| "destroyed (RemoveSocket s u # calls) = destroyed calls"

text \<open>A host on localhost:9200 with no base path, and the empty configuration.\<close>

definition localhost :: "jsstring \<Rightarrow> host" where
  "localhost proto =
     \<lparr> host_protocol = proto, host_host = js ''localhost'', host_port = JNum 9200,
       host_path = None, host_ssl = [], getHeaders = (\<lambda>v. JObject 0),
       getQuery = (\<lambda>v. Undefined) \<rparr>"

definition no_config :: config where
  "no_config =
     \<lparr> cfg_maxSockets = Undefined, cfg_keepAlive = Undefined, cfg_keepAliveInterval = Undefined,
       cfg_keepAliveMaxFreeSockets = Undefined, cfg_keepAliveFreeSocketTimeout = Undefined,
       cfg_forever = Undefined, createNodeAgent = None \<rparr>"

text \<open>
  A connector in use: between construction and the close notification Node moves
  sockets in and out of the pool's tables and queues requests.
\<close>

definition in_use ::
  "connector \<Rightarrow> (string \<times> socket option list) list \<Rightarrow> (string \<times> socket option list) list \<Rightarrow>
   (string \<times> jsval list) list \<Rightarrow> connector" where
  "in_use c ss fs rq =
     c \<lparr> agent := (agent c) \<lparr> sockets := ss, freeSockets := fs, requests := rq \<rparr> \<rparr>"

text \<open>
  A terminal signal reaches a listener: an \<^verbatim>\<open>'error'\<close> of the request, or an \<^verbatim>\<open>'end'\<close>
  or \<^verbatim>\<open>'error'\<close> of the response stream once there is a response (the flag says that
  there is one already).
\<close>

fun terminal_signal :: "bool \<Rightarrow> event list \<Rightarrow> bool" where
  "terminal_signal r [] = False"
| "terminal_signal r (Response st hs # es) = terminal_signal True es"
| "terminal_signal r (Data d # es) = terminal_signal r es"
| "terminal_signal r (End # es) = (r \<or> terminal_signal r es)"
| "terminal_signal r (StreamError e # es) = (r \<or> terminal_signal r es)"
| "terminal_signal r (RequestError e # es) = True"
| "terminal_signal r (CallCancel # es) = terminal_signal r es"

fun is_Response :: "event \<Rightarrow> bool" where
  "is_Response (Response st hs) = True"
| "is_Response e = False"

text \<open>
  The state of a request when \<^verbatim>\<open>request\<close> returns (\<open>fresh\<close>), and what holds of it
  from then on (\<open>listening\<close>): until the callback has fired, every listener that can
  fire it is attached; once it has fired, it has fired once and \<^verbatim>\<open>request\<close> is null.
\<close>

definition fresh :: "req_state \<Rightarrow> bool" where
  "fresh s =
     (request_var s = JClientRequest \<and> \<not> cb_called s \<and> request_error_listener s \<and>
      response_listener s \<and> incoming s = None \<and> cb_calls s = [] \<and> callbacks s = [] \<and>
      trace_log s = [] \<and> unhandled_errors s = [] \<and> status s = 0 \<and> headers s = [])"

definition listening :: "req_state \<Rightarrow> bool" where
  "listening s =
     ((if cb_called s then length (callbacks s) = 1 \<and> request_var s = Null
       else callbacks s = [] \<and> request_error_listener s \<and> request_var s = JClientRequest \<and>
            (case incoming s of
               None \<Rightarrow> True
             | Some i \<Rightarrow> end_listener i \<and> stream_error_listener i)) \<and>
      response_listener s = (incoming s = None))"

text \<open>The request is over for the cancellation function: cleaned up, or aborted.\<close>

definition done_or_aborted :: "req_state \<Rightarrow> bool" where
  "done_or_aborted s = (\<not> truthy (request_var s) \<or> cr_aborted (client_request s))"

text \<open>
  The header \<^verbatim>\<open>content-encoding\<close> is present and equals \<open>name\<close> when the case of the
  letters is ignored.
\<close>

definition encoding_is :: "(string \<times> string) list \<Rightarrow> string \<Rightarrow> bool" where
  "encoding_is hs name =
     (case map_of hs ''content-encoding'' of
        None \<Rightarrow> False
      | Some v \<Rightarrow> toLowerCase v = toLowerCase name)"

text \<open>
  The text that Node's streams hand to the \<^verbatim>\<open>'data'\<close> listener in total, for the raw
  bytes \<open>raw\<close> of a response body: the bytes, decompressed first when the stream was
  piped into \<^verbatim>\<open>zlib.createUnzip()\<close>, decoded as UTF-8 (\<^verbatim>\<open>setEncoding('utf8')\<close>). The
  decompressor and the decoder are Node's and are parameters; a failing decompressor
  gives the error that the stream emits.
\<close>

type_synonym byte = "8 word"

definition stream_text ::
  "(byte list \<Rightarrow> jsval + byte list) \<Rightarrow> (byte list \<Rightarrow> jsstring) \<Rightarrow> incoming_stream \<Rightarrow>
   byte list \<Rightarrow> jsval + jsstring" where
  "stream_text unzip utf8 i raw =
     (if piped i
      then (case unzip raw of Inl e \<Rightarrow> Inl e | Inr z \<Rightarrow> Inr (utf8 z))
      else Inr (utf8 raw))"

text \<open>
  Example inputs: a query serialiser, the request \<^verbatim>\<open>GET /\<close> without a body, an error
  of the socket, a decoder for ASCII bytes and a stand-in for the decompressor (it
  strips the two magic bytes of gzip). \<open>issue\<close> constructs the connector and issues one
  request.
\<close>

definition no_query :: "jsval \<Rightarrow> jsstring" where
  "no_query q = []"

definition get_root :: params where
  "get_root =
     \<lparr> p_method = Some (js ''GET''), p_path = Some (js ''/''), p_query = Undefined,
       p_headers = Undefined, p_body = None \<rparr>"

definition socket_hang_up :: jsval where
  "socket_hang_up = JError ''Error'' (js ''socket hang up'')"

definition ascii_text :: "byte list \<Rightarrow> jsstring" where
  "ascii_text bs = map ucast bs"

definition toy_unzip :: "byte list \<Rightarrow> jsval + byte list" where
  "toy_unzip bs =
     (if take 2 bs = [0x1F, 0x8B] then Inr (drop 2 bs)
      else Inl (JError ''Error'' (js ''incorrect header check'')))"

definition issue :: "host \<Rightarrow> config \<Rightarrow> params \<Rightarrow> req_state option" where
  "issue h cfg p =
     (case HttpConnector h cfg of
        Inl e \<Rightarrow> None
      | Inr c \<Rightarrow> (case request no_query c p of Inl e \<Rightarrow> None | Inr s \<Rightarrow> Some s))"

section \<open>Strings\<close>

lemma unat_of_char: "unat (of_char c :: 16 word) = of_char c"
proof -
  have "(of_char c :: 16 word) = of_nat (of_char c)"
    by (simp only: of_nat_of_char)
  moreover have "(of_char c :: nat) < 2 ^ 16"
    by (rule less_trans [OF nat_of_char_less_256]) simp
  ultimately show ?thesis
    by (simp add: unat_of_nat)
qed

lemma js_eq_iff: "js a = js b \<longleftrightarrow> a = b"
proof -
  have "inj (of_char :: char \<Rightarrow> 16 word)"
  proof (rule injI)
    fix x y :: char
    assume "(of_char x :: 16 word) = of_char y"
    then have "unat (of_char x :: 16 word) = unat (of_char y :: 16 word)" by simp
    then have "(of_char x :: nat) = of_char y" by (simp only: unat_of_char)
    then have "char_of (of_char x :: nat) = char_of (of_char y :: nat)" by simp
    then show "x = y" by simp
  qed
  then show ?thesis
    unfolding js_def by (simp add: inj_map_eq_map)
qed

section \<open>Construction\<close>

lemma handles_None_iff:
  "handles p = None \<longleftrightarrow>
     p \<noteq> js ''http'' \<and> p \<noteq> js ''https'' \<and> p \<notin> set (map js object_prototype_keys)"
  by (simp add: handles_def)

lemma handles_module:
  "handles (js ''http'') = Some HttpModule" "handles (js ''https'') = Some HttpsModule"
  by (simp_all add: handles_def js_eq_iff)

text \<open>
  A protocol that \<^verbatim>\<open>handles\<close> does not resolve makes the constructor throw the
  TypeError ``Invalid protocol''; with http or https the constructor returns.
\<close>

lemma HttpConnector_invalid_protocol:
  "handles (host_protocol h) = None \<Longrightarrow>
   HttpConnector h cfg = Inl (invalid_protocol (host_protocol h))"
  by (simp add: HttpConnector_def)

lemma HttpConnector_http_https:
  "host_protocol h = js ''http'' \<or> host_protocol h = js ''https'' \<Longrightarrow>
   \<exists>c. HttpConnector h cfg = Inr c"
  by (auto simp: HttpConnector_def handles_module createAgent_def Let_def
      split: prod.splits option.splits if_splits)

lemma createAgent_keepAlive:
  "truthy (cfg_forever cfg) \<or> truthy (cfg_keepAlive cfg) \<Longrightarrow>
   createAgent this cfg =
     Inr (new_Agent (if useSsl this then AgentKeepAliveHttps else AgentKeepAlive)
            (makeAgentConfig
               (this \<lparr> status_set_listeners := status_set_listeners this @ [OnStatusSet] \<rparr>)
               (if truthy (cfg_forever cfg) then cfg \<lparr> cfg_keepAlive := cfg_forever cfg \<rparr>
                else cfg)),
          this \<lparr> status_set_listeners := status_set_listeners this @ [OnStatusSet] \<rparr>)"
  by (auto simp: createAgent_def Let_def)

lemma createAgent_no_keepAlive:
  "\<not> truthy (cfg_forever cfg) \<Longrightarrow> \<not> truthy (cfg_keepAlive cfg) \<Longrightarrow>
   createAgent this cfg = Inr (a, this') \<Longrightarrow> this' = this"
  by (auto simp: createAgent_def Let_def split: option.splits)

text \<open>
  Claim C3 (every protocol other than http and https makes the constructor throw).
  The constructor looks the protocol up in an object literal, so a protocol that names
  a member of \<^verbatim>\<open>Object.prototype\<close> finds a truthy value and passes the check: with the
  protocol \<^verbatim>\<open>constructor\<close> and the default configuration the constructor returns a
  connector (whose pool is the keep-alive agent) and throws nothing.
\<close>

theorem inherited_protocol_accepted:
  "(case HttpConnector (localhost (js ''constructor'')) no_config of
      Inl e \<Rightarrow> False
    | Inr c \<Rightarrow> hand c = ObjectPrototypeMember (js ''constructor'') \<and>
               agent_class (agent c) = AgentKeepAlive)"
  by (simp add: HttpConnector_def handles_def js_eq_iff object_prototype_keys_def localhost_def
      no_config_def defaults_def default_to_def createAgent_def new_Agent_def Let_def
      makeAgentConfig_def lookup_prop_def)

text \<open>
  Claim C10. Without a pool-factory override, a truthy \<^verbatim>\<open>forever\<close> makes the
  constructor (for any protocol it accepts) use the keep-alive agent and register the
  drain listener, whatever \<^verbatim>\<open>keepAlive\<close> is; and when \<^verbatim>\<open>keepAlive\<close> is false and
  \<^verbatim>\<open>forever\<close> is falsy, a connector that was constructed has no drain listener.
\<close>

theorem forever_forces_keepAlive:
  "(createNodeAgent cfg = None \<and> truthy (cfg_forever cfg) \<and>
    handles (host_protocol h) \<noteq> None \<longrightarrow>
      (\<exists>c. HttpConnector h cfg = Inr c \<and>
           agent_class (agent c) =
             (if host_protocol h = js ''https'' then AgentKeepAliveHttps else AgentKeepAlive) \<and>
           status_set_listeners c = [OnStatusSet])) \<and>
   (cfg_keepAlive cfg = JBool False \<and> \<not> truthy (cfg_forever cfg) \<and>
    HttpConnector h cfg = Inr c' \<longrightarrow>
      status_set_listeners c' = [])"
proof (intro conjI impI)
  assume a: "createNodeAgent cfg = None \<and> truthy (cfg_forever cfg) \<and>
    handles (host_protocol h) \<noteq> None"
  then obtain hnd where hnd: "handles (host_protocol h) = Some hnd" by auto
  have f: "truthy (cfg_forever (defaults cfg))" "createNodeAgent (defaults cfg) = None"
    using a by (simp_all add: defaults_def)
  show "\<exists>c. HttpConnector h cfg = Inr c \<and>
           agent_class (agent c) =
             (if host_protocol h = js ''https'' then AgentKeepAliveHttps else AgentKeepAlive) \<and>
           status_set_listeners c = [OnStatusSet]"
    using f hnd by (simp add: HttpConnector_def createAgent_keepAlive new_Agent_def Let_def)
next
  assume b: "cfg_keepAlive cfg = JBool False \<and> \<not> truthy (cfg_forever cfg) \<and>
    HttpConnector h cfg = Inr c'"
  have f: "\<not> truthy (cfg_forever (defaults cfg))" "\<not> truthy (cfg_keepAlive (defaults cfg))"
    using b by (simp_all add: defaults_def default_to_def)
  show "status_set_listeners c' = []"
    using b f
    by (auto simp: HttpConnector_def Let_def split: option.splits sum.splits
        dest!: createAgent_no_keepAlive [OF f])
qed

theorem forever_forces_keepAlive_witness:
  "(\<exists>c. HttpConnector (localhost (js ''https''))
          (no_config \<lparr> cfg_keepAlive := JBool False, cfg_forever := JBool True \<rparr>) = Inr c \<and>
        agent_class (agent c) = AgentKeepAliveHttps \<and>
        status_set_listeners c = [OnStatusSet]) \<and>
   (\<exists>c. HttpConnector (localhost (js ''http''))
          (no_config \<lparr> cfg_keepAlive := JBool False \<rparr>) = Inr c \<and>
        status_set_listeners c = [])"
proof -
  obtain c where c: "HttpConnector (localhost (js ''http''))
      (no_config \<lparr> cfg_keepAlive := JBool False \<rparr>) = Inr c"
    using HttpConnector_http_https [of "localhost (js ''http'')"]
    by (auto simp: localhost_def)
  have "status_set_listeners c = []"
    using c forever_forces_keepAlive
      [of "no_config \<lparr> cfg_keepAlive := JBool False \<rparr>" "localhost (js ''http'')" c]
    by (simp add: no_config_def)
  with c have second: "\<exists>c. HttpConnector (localhost (js ''http''))
          (no_config \<lparr> cfg_keepAlive := JBool False \<rparr>) = Inr c \<and>
        status_set_listeners c = []"
    by blast
  have first: "\<exists>c. HttpConnector (localhost (js ''https''))
          (no_config \<lparr> cfg_keepAlive := JBool False, cfg_forever := JBool True \<rparr>) = Inr c \<and>
        agent_class (agent c) = AgentKeepAliveHttps \<and>
        status_set_listeners c = [OnStatusSet]"
    using forever_forces_keepAlive
      [of "no_config \<lparr> cfg_keepAlive := JBool False, cfg_forever := JBool True \<rparr>"
          "localhost (js ''https'')"]
    by (simp add: no_config_def localhost_def handles_module)
  from first second show ?thesis by blast
qed

section \<open>The drain\<close>

lemma collect_array:
  "fold (\<lambda>s acc. case s of Some x \<Rightarrow> acc @ [(k, x)] | None \<Rightarrow> acc) socks acc =
   acc @ map (\<lambda>s. (k, s)) (List.map_filter id socks)"
  by (induction socks arbitrary: acc) (auto simp: List.map_filter_simps split: option.splits)

lemma collect_table:
  "fold (\<lambda>e acc. collectSockets acc e) tbl acc =
   acc @ concat (map (\<lambda>(k, socks). map (\<lambda>s. (k, s)) (List.map_filter id socks)) tbl)"
  by (induction tbl arbitrary: acc) (auto simp: collectSockets_def collect_array)

lemma fold_calls:
  "fold (\<lambda>args acc. acc @ remove_and_destroy args) xs acc =
   acc @ concat (map remove_and_destroy xs)"
  by (induction xs arbitrary: acc) auto

text \<open>The handler in closed form: the two loops collect exactly the tracked sockets.\<close>

lemma onStatusSet_closed:
  "onStatusSet (js ''closed'') this =
     this \<lparr> agent := (agent this)
                       \<lparr> minSockets := JNum 0, maxSockets := JNum 0, requests := [] \<rparr>,
            pool_calls := pool_calls this @
                          concat (map remove_and_destroy (tracked_sockets (agent this))) \<rparr>"
  by (simp add: onStatusSet_def Let_def collect_table fold_calls tracked_sockets_def)

lemma onStatusSet_other: "st \<noteq> js ''closed'' \<Longrightarrow> onStatusSet st this = this"
  by (simp add: onStatusSet_def)

lemma count_destroy:
  "count_list (concat (map remove_and_destroy xs)) (Destroy s) = count_list (map snd xs) s"
  by (induction xs) (auto simp: remove_and_destroy_def)

lemma count_remove:
  "count_list (concat (map remove_and_destroy xs)) (RemoveSocket s (ParseUrl k)) =
   count_list xs (k, s)"
  by (induction xs) (auto simp: remove_and_destroy_def)

lemma HttpConnector_keepAlive_listeners:
  assumes "HttpConnector h cfg = Inr c" "createNodeAgent cfg = None"
    and "truthy (cfg_forever cfg) \<or> cfg_keepAlive cfg = Undefined \<or> truthy (cfg_keepAlive cfg)"
  shows "status_set_listeners c = [OnStatusSet] \<and> pool_calls c = []"
proof -
  have "truthy (cfg_forever (defaults cfg)) \<or> truthy (cfg_keepAlive (defaults cfg))"
    using assms(3) by (auto simp: defaults_def default_to_def)
  moreover have "createNodeAgent (defaults cfg) = None"
    using assms(2) by (simp add: defaults_def)
  ultimately show ?thesis
    using assms(1)
    by (auto simp: HttpConnector_def Let_def createAgent_keepAlive split: option.splits)
qed

lemma destroyed_calls:
  "destroyed (concat (map remove_and_destroy xs)) = map snd xs"
  by (induction xs) (auto simp: remove_and_destroy_def)

text \<open>
  Claim C2, as stated: whatever the configuration, the close notification drains the
  pool. It fails for a connector constructed with \<^verbatim>\<open>keepAlive: false\<close>: no listener
  was registered, so the notification changes nothing; the socket the pool holds is not
  terminated and the limit stays unbounded.
\<close>

theorem closed_without_keepAlive_counterexample:
  "(case HttpConnector (localhost (js ''http'')) (no_config \<lparr> cfg_keepAlive := JBool False \<rparr>) of
      Inl e \<Rightarrow> False
    | Inr c \<Rightarrow>
        emit_status_set (js ''closed'') (in_use c [(''localhost:9200:'', [Some 1])] [] []) =
          in_use c [(''localhost:9200:'', [Some 1])] [] [] \<and>
        tracked_sockets (agent (in_use c [(''localhost:9200:'', [Some 1])] [] [])) =
          [(''localhost:9200:'', 1)] \<and>
        destroyed (pool_calls (emit_status_set (js ''closed'')
          (in_use c [(''localhost:9200:'', [Some 1])] [] []))) = [] \<and>
        maxSockets (agent (emit_status_set (js ''closed'')
          (in_use c [(''localhost:9200:'', [Some 1])] [] []))) = JInfinity)"
  by (simp add: HttpConnector_def handles_module localhost_def no_config_def defaults_def
      default_to_def createAgent_def new_Agent_def Let_def makeAgentConfig_def lookup_prop_def
      js_eq_iff emit_status_set_def in_use_def tracked_sockets_def List.map_filter_simps)

text \<open>
  Claim C2, amended: for a connector constructed without a pool-factory override and
  with keep-alive on (\<^verbatim>\<open>forever\<close> truthy, or \<^verbatim>\<open>keepAlive\<close> unset or truthy), the close
  notification sets both limits of the pool to zero, clears the queued requests, and
  forcibly terminates every socket the pool tracks, in use and idle, each entry of the
  tables exactly once. (Whether a socket is thereby detached from the pool's
  bookkeeping is not part of the statement.)
\<close>

theorem closed_drains_pool:
  assumes "HttpConnector h cfg = Inr c"
    and "createNodeAgent cfg = None"
    and "truthy (cfg_forever cfg) \<or> cfg_keepAlive cfg = Undefined \<or> truthy (cfg_keepAlive cfg)"
  shows "minSockets (agent (emit_status_set (js ''closed'') (in_use c ss fs rq))) = JNum 0 \<and>
         maxSockets (agent (emit_status_set (js ''closed'') (in_use c ss fs rq))) = JNum 0 \<and>
         requests (agent (emit_status_set (js ''closed'') (in_use c ss fs rq))) = [] \<and>
         destroyed (pool_calls (emit_status_set (js ''closed'') (in_use c ss fs rq))) =
           map snd (tracked_sockets (agent (in_use c ss fs rq))) \<and>
         count_list (destroyed (pool_calls (emit_status_set (js ''closed'') (in_use c ss fs rq)))) s =
           count_list (map snd (tracked_sockets (agent (in_use c ss fs rq)))) s"
proof -
  have l: "status_set_listeners (in_use c ss fs rq) = [OnStatusSet]"
    "pool_calls (in_use c ss fs rq) = []"
    using HttpConnector_keepAlive_listeners [OF assms] by (simp_all add: in_use_def)
  have e: "emit_status_set (js ''closed'') (in_use c ss fs rq) =
           (in_use c ss fs rq)
             \<lparr> agent := (agent (in_use c ss fs rq))
                          \<lparr> minSockets := JNum 0, maxSockets := JNum 0, requests := [] \<rparr>,
               pool_calls := concat (map remove_and_destroy
                                       (tracked_sockets (agent (in_use c ss fs rq)))),
               status_set_listeners := [] \<rparr>"
    by (simp add: emit_status_set_def l onStatusSet_closed)
  show ?thesis
    by (simp add: e destroyed_calls)
qed

text \<open>The scenario of the specification: two sockets in use and three idle.\<close>

theorem closed_drains_pool_witness:
  "(case HttpConnector (localhost (js ''http'')) no_config of
      Inl e \<Rightarrow> False
    | Inr c \<Rightarrow>
        destroyed (pool_calls (emit_status_set (js ''closed'')
          (in_use c [(''localhost:9200:'', [Some 1, Some 2])]
                    [(''localhost:9200:'', [Some 3, Some 4, Some 5])] []))) =
          [1, 2, 3, 4, 5] \<and>
        maxSockets (agent (emit_status_set (js ''closed'')
          (in_use c [(''localhost:9200:'', [Some 1, Some 2])]
                    [(''localhost:9200:'', [Some 3, Some 4, Some 5])] []))) = JNum 0)"
proof -
  obtain c where c: "HttpConnector (localhost (js ''http'')) no_config = Inr c"
    using HttpConnector_http_https [of "localhost (js ''http'')" no_config]
    by (auto simp: localhost_def)
  have t: "map snd (tracked_sockets (agent
             (in_use c [(''localhost:9200:'', [Some 1, Some 2])]
                       [(''localhost:9200:'', [Some 3, Some 4, Some 5])] []))) =
           [1, 2, 3, 4, 5]"
    by (simp add: in_use_def tracked_sockets_def List.map_filter_simps)
  have "destroyed (pool_calls (emit_status_set (js ''closed'')
          (in_use c [(''localhost:9200:'', [Some 1, Some 2])]
                    [(''localhost:9200:'', [Some 3, Some 4, Some 5])] []))) =
          [1, 2, 3, 4, 5] \<and>
        maxSockets (agent (emit_status_set (js ''closed'')
          (in_use c [(''localhost:9200:'', [Some 1, Some 2])]
                    [(''localhost:9200:'', [Some 3, Some 4, Some 5])] []))) = JNum 0"
    using closed_drains_pool [OF c, of "[(''localhost:9200:'', [Some 1, Some 2])]"
        "[(''localhost:9200:'', [Some 3, Some 4, Some 5])]" "[]"] t
    by (simp add: no_config_def)
  then show ?thesis
    by (simp add: c)
qed

section \<open>One request: invariants\<close>

lemma request_fresh: "request qs c p = Inr s \<Longrightarrow> fresh s"
  by (auto simp: request_def Let_def fresh_def split: option.splits)

lemma request_ok:
  "hand c = HttpModule \<or> hand c = HttpsModule \<Longrightarrow> \<exists>s. request qs c p = Inr s"
  by (auto simp: request_def Let_def)

lemma HttpConnector_hand:
  "HttpConnector h cfg = Inr c \<Longrightarrow> handles (host_protocol h) = Some (hand c)"
  by (auto simp: HttpConnector_def Let_def split: option.splits sum.splits)

lemma issue_Some:
  assumes "host_protocol h = js ''http'' \<or> host_protocol h = js ''https''"
  shows "\<exists>c s. HttpConnector h cfg = Inr c \<and> request no_query c p = Inr s \<and>
           issue h cfg p = Some s"
proof -
  obtain c where c: "HttpConnector h cfg = Inr c"
    using HttpConnector_http_https [OF assms] by blast
  have "hand c = HttpModule \<or> hand c = HttpsModule"
    using HttpConnector_hand [OF c] assms by (auto simp: handles_module)
  then obtain s where s: "request no_query c p = Inr s"
    using request_ok by blast
  show ?thesis using c s by (simp add: issue_def)
qed

lemma fresh_listening: "fresh s \<Longrightarrow> listening s"
  by (simp add: fresh_def listening_def)

lemmas step_defs = cleanUp_def cb_def logRequest_def on_response_def cancel_def Let_def

lemma step_listening: "listening s \<Longrightarrow> listening (step e s)"
  by (cases e) (auto simp: listening_def step_defs split: option.splits if_splits)

lemma run_listening: "listening s \<Longrightarrow> listening (run evs s)"
  by (induction evs arbitrary: s) (auto simp: step_listening)

lemma run_append: "run (xs @ ys) s = run ys (run xs s)"
  by (induction xs arbitrary: s) auto

lemma step_cb_called:
  "listening s \<Longrightarrow>
   cb_called (step e s) = (cb_called s \<or> terminal_signal (incoming s \<noteq> None) [e])"
  by (cases e) (auto simp: listening_def step_defs split: option.splits if_splits)

lemma step_incoming:
  "listening s \<Longrightarrow> (incoming (step e s) \<noteq> None) = (incoming s \<noteq> None \<or> is_Response e)"
  by (cases e) (auto simp: listening_def step_defs split: option.splits if_splits)

lemma terminal_signal_True: "terminal_signal r es \<Longrightarrow> terminal_signal True es"
  by (induction r es rule: terminal_signal.induct) auto

lemma terminal_signal_Cons:
  "terminal_signal r (e # es) =
     (terminal_signal r [e] \<or> terminal_signal (r \<or> is_Response e) es)"
  by (cases e) (auto dest: terminal_signal_True)

lemma run_cb_called:
  "listening s \<Longrightarrow>
   cb_called (run evs s) = (cb_called s \<or> terminal_signal (incoming s \<noteq> None) evs)"
proof (induction evs arbitrary: s)
  case Nil
  then show ?case by simp
next
  case (Cons e es)
  have "cb_called (run (e # es) s) = cb_called (run es (step e s))" by simp
  also have "\<dots> = (cb_called (step e s) \<or> terminal_signal (incoming (step e s) \<noteq> None) es)"
    using Cons.IH [OF step_listening [OF Cons.prems]] .
  also have "\<dots> = (cb_called s \<or> terminal_signal (incoming s \<noteq> None) (e # es))"
    unfolding step_cb_called [OF Cons.prems] step_incoming [OF Cons.prems]
    by (subst (2) terminal_signal_Cons) auto
  finally show ?case .
qed

lemma run_incoming:
  "listening s \<Longrightarrow>
   (incoming (run evs s) \<noteq> None) = (incoming s \<noteq> None \<or> list_ex is_Response evs)"
proof (induction evs arbitrary: s)
  case Nil
  then show ?case by simp
next
  case (Cons e es)
  show ?case
    using Cons.IH [OF step_listening [OF Cons.prems]] step_incoming [OF Cons.prems, of e]
    by auto
qed

lemma listening_count: "listening s \<Longrightarrow> length (callbacks s) = (if cb_called s then 1 else 0)"
  by (simp add: listening_def)

lemma callbacks_count:
  assumes "fresh s"
  shows "length (callbacks (run evs s)) = (if terminal_signal False evs then 1 else 0)"
proof -
  have l: "listening s" using assms by (rule fresh_listening)
  have "cb_called (run evs s) = terminal_signal False evs"
    using run_cb_called [OF l, of evs] assms by (simp add: fresh_def)
  then show ?thesis
    using listening_count [OF run_listening [OF l, of evs]] by simp
qed

lemma run_Data:
  "incoming s = Some i \<Longrightarrow>
   run (map Data ds) s = s \<lparr> incoming := Some (i \<lparr> response := response i @ concat ds \<rparr>) \<rparr>"
  by (induction ds arbitrary: s i) auto

text \<open>A response, its chunks and the end of the stream, on a request that just started.\<close>

lemma response_end:
  assumes "fresh s"
  shows "callbacks (run (Response st hs # map Data ds @ [End]) s) =
     [[Undefined, if concat ds = [] then Undefined else JStr (concat ds), JNum st, JHeaders hs]]"
proof -
  define s1 where "s1 = step (Response st hs) s"
  obtain i where i: "incoming s1 = Some i" "response i = []" "end_listener i"
    using assms by (simp add: s1_def fresh_def on_response_def Let_def)
  have s1: "\<not> cb_called s1" "callbacks s1 = []" "status s1 = st" "headers s1 = hs"
    using assms by (simp_all add: s1_def fresh_def on_response_def Let_def)
  have "run (Response st hs # map Data ds @ [End]) s = step End (run (map Data ds) s1)"
    by (simp add: run_append s1_def)
  then show ?thesis
    using i s1 by (simp add: run_Data [OF i(1)] step_defs)
qed

section \<open>One request: the callback\<close>

text \<open>
  Claim C1, as stated: the callback of every request fires exactly once, never zero
  times. The cancellation function never calls the callback and the code sets no
  timeout: the callback fires only from a listener. A request that is cancelled and
  to which Node delivers neither an \<^verbatim>\<open>'error'\<close> nor an \<^verbatim>\<open>'end'\<close> (it was still waiting
  for a socket, or the drain dropped it from the queue) gets no callback.
\<close>

theorem callback_never_fires_counterexample:
  "map_option (\<lambda>s. callbacks (run [CallCancel] s))
     (issue (localhost (js ''http'')) no_config get_root) = Some []"
proof -
  obtain c s where s: "request no_query c get_root = Inr s"
    "issue (localhost (js ''http'')) no_config get_root = Some s"
    using issue_Some [of "localhost (js ''http'')" no_config get_root]
    by (auto simp: localhost_def)
  have "length (callbacks (run [CallCancel] s)) = 0"
    using callbacks_count [OF request_fresh [OF s(1)], of "[CallCancel]"]
    by simp
  then show ?thesis by (simp add: s(2))
qed

text \<open>
  Claim C1, amended: for every request and every sequence of events, the callback
  fires at most once, and it fires exactly once when a terminal signal is delivered
  (an \<^verbatim>\<open>'error'\<close> of the request, or an \<^verbatim>\<open>'end'\<close> or \<^verbatim>\<open>'error'\<close> of the response stream),
  however many of them are; without a terminal signal it does not fire.
\<close>

theorem callback_once_per_terminal_signal:
  assumes "request qs c p = Inr s0"
  shows "length (callbacks (run evs s0)) = (if terminal_signal False evs then 1 else 0)"
  using callbacks_count [OF request_fresh [OF assms]] .

text \<open>A socket error and the end of the stream for the same request: one callback.\<close>

theorem callback_once_per_terminal_signal_witness:
  "map_option (\<lambda>s. length (callbacks
       (run [Response 200 [], Data (js ''ok''), RequestError socket_hang_up, End] s)))
     (issue (localhost (js ''http'')) no_config get_root) = Some 1"
proof -
  obtain c s where s: "request no_query c get_root = Inr s"
    "issue (localhost (js ''http'')) no_config get_root = Some s"
    using issue_Some [of "localhost (js ''http'')" no_config get_root]
    by (auto simp: localhost_def)
  show ?thesis
    using callback_once_per_terminal_signal [OF s(1),
        of "[Response 200 [], Data (js ''ok''), RequestError socket_hang_up, End]"]
    by (simp add: s(2))
qed

text \<open>
  Claim C4, as stated: a failed request calls the callback with four arguments, the
  status code 0 and empty headers when no response was received. The code calls
  \<^verbatim>\<open>cb(err)\<close>: for a socket error before any response the callback receives the error
  and nothing else.
\<close>

theorem failed_request_counterexample:
  "map_option (\<lambda>s. callbacks (run [RequestError socket_hang_up] s))
     (issue (localhost (js ''http'')) no_config get_root) = Some [[socket_hang_up]] \<and>
   map_option (\<lambda>s. callbacks (run [RequestError socket_hang_up] s))
     (issue (localhost (js ''http'')) no_config get_root) \<noteq>
     Some [[socket_hang_up, Undefined, JNum 0, JHeaders []]]"
proof -
  obtain c s where s: "request no_query c get_root = Inr s"
    "issue (localhost (js ''http'')) no_config get_root = Some s"
    using issue_Some [of "localhost (js ''http'')" no_config get_root]
    by (auto simp: localhost_def)
  have "fresh s" using s(1) by (rule request_fresh)
  then have "callbacks (run [RequestError socket_hang_up] s) = [[socket_hang_up]]"
    by (simp add: fresh_def step_defs socket_hang_up_def)
  then show ?thesis by (simp add: s(2))
qed

text \<open>
  Claim C4, amended: when the first terminal signal of a request is an \<^verbatim>\<open>'error'\<close> that
  carries an Error (on the request, or on the response stream after a response), the
  callback is called with that error as its only argument, whether or not a response
  was received before.
\<close>

theorem failed_request_callback:
  assumes "request qs c p = Inr s0"
      and "\<not> terminal_signal False pre"
      and "instanceof_Error err"
      and "ev = RequestError err \<or> (ev = StreamError err \<and> list_ex is_Response pre)"
  shows "callbacks (run (pre @ [ev]) s0) = [[err]]"
proof -
  have l: "listening s0" and f: "fresh s0"
    using assms(1) by (simp_all add: request_fresh fresh_listening)
  define s1 where "s1 = run pre s0"
  have l1: "listening s1" unfolding s1_def by (rule run_listening [OF l])
  have nc: "\<not> cb_called s1"
    using run_cb_called [OF l, of pre] f assms(2) by (simp add: fresh_def s1_def)
  have inc: "list_ex is_Response pre \<Longrightarrow> incoming s1 \<noteq> None"
    using run_incoming [OF l, of pre] by (simp add: s1_def)
  have "callbacks (step ev s1) = [[err]]"
    using assms(3,4) l1 nc inc
    by (cases err) (auto simp: listening_def step_defs split: option.splits)
  then show ?thesis by (simp add: run_append s1_def)
qed

text \<open>A decompression failure after the response and a first chunk.\<close>

theorem failed_request_callback_witness:
  "map_option (\<lambda>s. callbacks
       (run ([Response 200 [(''content-encoding'', ''gzip'')], Data (js ''o'')] @
             [StreamError (JError ''Error'' (js ''incorrect header check''))]) s))
     (issue (localhost (js ''http'')) no_config get_root) =
     Some [[JError ''Error'' (js ''incorrect header check'')]]"
proof -
  obtain c s where s: "request no_query c get_root = Inr s"
    "issue (localhost (js ''http'')) no_config get_root = Some s"
    using issue_Some [of "localhost (js ''http'')" no_config get_root]
    by (auto simp: localhost_def)
  show ?thesis
    using failed_request_callback [OF s(1),
        of "[Response 200 [(''content-encoding'', ''gzip'')], Data (js ''o'')]"
           "JError ''Error'' (js ''incorrect header check'')"
           "StreamError (JError ''Error'' (js ''incorrect header check''))"]
    by (simp add: s(2))
qed

section \<open>One request: the body\<close>

lemma toLowerCase_Nil: "toLowerCase [] = []"
  by (simp add: toLowerCase_def)

lemma toLowerCase_gzip:
  "toLowerCase ''gzip'' = ''gzip''" "toLowerCase ''deflate'' = ''deflate''"
  by (simp_all add: toLowerCase_def lower_char_def is_upper_def)

lemma ascii_ok: "ascii_text [0x6F, 0x6B] = js ''ok''"
  by (simp add: ascii_text_def js_def)

text \<open>
  Claim C5, as stated: without a recognised encoding the delivered body equals the raw
  bytes decoded as UTF-8. For a response with no body bytes (a 204, say) the decoded
  text is the empty string, and the callback's body argument is \<^verbatim>\<open>undefined\<close>, not
  the empty string.
\<close>

theorem empty_body_counterexample:
  "map_option (\<lambda>s. callbacks (run (Response 204 [] # map Data [] @ [End]) s))
     (issue (localhost (js ''http'')) no_config get_root) \<noteq>
     Some [[Undefined, JStr (ascii_text []), JNum 204, JHeaders []]]"
proof -
  obtain c s where s: "request no_query c get_root = Inr s"
    "issue (localhost (js ''http'')) no_config get_root = Some s"
    using issue_Some [of "localhost (js ''http'')" no_config get_root]
    by (auto simp: localhost_def)
  have "fresh s" using s(1) by (rule request_fresh)
  from response_end [OF this, of 204 "[]" "[]"] show ?thesis
    by (simp add: s(2) ascii_text_def)
qed

text \<open>
  Claim C5, amended: the response stream is piped through the decompressor exactly
  when the \<^verbatim>\<open>content-encoding\<close> header equals gzip or deflate, ignoring case; and for a
  response that ends normally, whose stream delivers in chunks the text \<open>txt\<close> (the raw
  bytes, decompressed if piped, decoded as UTF-8), the callback is called once with no
  error, the status code and the headers, and with \<open>txt\<close> as the body when \<open>txt\<close> is not
  empty, with \<^verbatim>\<open>undefined\<close> as the body when it is.
\<close>

theorem body_is_decoded_stream:
  assumes "request qs c p = Inr s0"
      and "incoming (step (Response st hs) s0) = Some i"
      and "stream_text unzip utf8 i raw = Inr txt"
      and "concat ds = txt"
  shows "piped i = (encoding_is hs ''gzip'' \<or> encoding_is hs ''deflate'') \<and>
         callbacks (run (Response st hs # map Data ds @ [End]) s0) =
           [[Undefined, if txt = [] then Undefined else JStr txt, JNum st, JHeaders hs]]"
proof -
  have f: "fresh s0" using assms(1) by (rule request_fresh)
  have "piped i = (content_encoding hs = ''gzip'' \<or> content_encoding hs = ''deflate'')"
    using assms(2) f by (auto simp: fresh_def on_response_def Let_def)
  moreover have "content_encoding hs = ''gzip'' \<longleftrightarrow> encoding_is hs ''gzip''"
    by (simp add: content_encoding_def encoding_is_def toLowerCase_Nil toLowerCase_gzip
        split: option.splits)
  moreover have "content_encoding hs = ''deflate'' \<longleftrightarrow> encoding_is hs ''deflate''"
    by (simp add: content_encoding_def encoding_is_def toLowerCase_Nil toLowerCase_gzip
        split: option.splits)
  ultimately show ?thesis
    using response_end [OF f, of st hs ds] assms(4) by simp
qed

text \<open>A response with \<^verbatim>\<open>content-encoding: GZip\<close> whose body arrives in two chunks.\<close>

theorem body_is_decoded_stream_witness:
  "map_option
     (\<lambda>s. (map_option piped (incoming (step (Response 200 [(''content-encoding'', ''GZip'')]) s)),
           stream_text toy_unzip ascii_text
             (the (incoming (step (Response 200 [(''content-encoding'', ''GZip'')]) s)))
             [0x1F, 0x8B, 0x6F, 0x6B],
           callbacks (run (Response 200 [(''content-encoding'', ''GZip'')] #
                             map Data [js ''o'', js ''k''] @ [End]) s)))
     (issue (localhost (js ''http'')) no_config get_root) =
   Some (Some True, Inr (js ''ok''),
         [[Undefined, JStr (js ''ok''), JNum 200, JHeaders [(''content-encoding'', ''GZip'')]]])"
proof -
  obtain c s where s: "request no_query c get_root = Inr s"
    "issue (localhost (js ''http'')) no_config get_root = Some s"
    using issue_Some [of "localhost (js ''http'')" no_config get_root]
    by (auto simp: localhost_def)
  have f: "fresh s" using s(1) by (rule request_fresh)
  obtain i where i: "incoming (step (Response 200 [(''content-encoding'', ''GZip'')]) s) = Some i"
    using f by (simp add: fresh_def on_response_def Let_def)
  have d: "concat [js ''o'', js ''k''] = js ''ok''"
    by (simp add: js_def)
  have p: "piped i"
    using f i by (auto simp: fresh_def on_response_def Let_def content_encoding_def
        toLowerCase_def lower_char_def is_upper_def)
  have t': "stream_text toy_unzip ascii_text i [0x1F, 0x8B, 0x6F, 0x6B] = Inr (js ''ok'')"
    using p by (simp add: stream_text_def toy_unzip_def ascii_ok)
  have nb: "js ''ok'' \<noteq> []"
    by (simp add: js_def)
  have "callbacks (run (Response 200 [(''content-encoding'', ''GZip'')] #
                          map Data [js ''o'', js ''k''] @ [End]) s) =
        [[Undefined, JStr (js ''ok''), JNum 200, JHeaders [(''content-encoding'', ''GZip'')]]]"
    using body_is_decoded_stream [OF s(1) i t' d] nb by (simp del: run.simps)
  then show ?thesis
    unfolding s(2) using p t' i by (simp del: run.simps step.simps)
qed

text \<open>
  Claim C9. Whenever the first argument of \<^verbatim>\<open>cleanUp\<close> is not an Error, \<^verbatim>\<open>cleanUp\<close>
  calls \<^verbatim>\<open>cb\<close> with \<^verbatim>\<open>undefined\<close> as the error, its second argument or, when
  that is falsy, \<^verbatim>\<open>undefined\<close> as the body, the status and the headers, and the call
  reaches the caller's callback when that has not fired yet; and a response that ends
  with an empty accumulated body gives the callback \<^verbatim>\<open>undefined\<close> as the body.
\<close>

theorem success_shape:
  "(\<not> instanceof_Error err \<longrightarrow>
      cb_calls (cleanUp err resp s) =
        cb_calls s @ [[Undefined, if truthy resp then resp else Undefined,
                       JNum (status s), JHeaders (headers s)]]) \<and>
   (\<not> instanceof_Error err \<and> \<not> cb_called s \<longrightarrow>
      callbacks (cleanUp err resp s) =
        callbacks s @ [[Undefined, if truthy resp then resp else Undefined,
                        JNum (status s), JHeaders (headers s)]]) \<and>
   (request qs c p = Inr s0 \<and> concat ds = [] \<longrightarrow>
      callbacks (run (Response st hs # map Data ds @ [End]) s0) =
        [[Undefined, Undefined, JNum st, JHeaders hs]])"
proof (intro conjI impI)
  assume "\<not> instanceof_Error err"
  then show "cb_calls (cleanUp err resp s) =
        cb_calls s @ [[Undefined, if truthy resp then resp else Undefined,
                       JNum (status s), JHeaders (headers s)]]"
    by (simp add: step_defs)
next
  assume "\<not> instanceof_Error err \<and> \<not> cb_called s"
  then show "callbacks (cleanUp err resp s) =
        callbacks s @ [[Undefined, if truthy resp then resp else Undefined,
                        JNum (status s), JHeaders (headers s)]]"
    by (simp add: step_defs)
next
  assume a: "request qs c p = Inr s0 \<and> concat ds = []"
  then have "fresh s0" by (blast intro: request_fresh)
  from response_end [OF this, of st hs ds] a
  show "callbacks (run (Response st hs # map Data ds @ [End]) s0) =
        [[Undefined, Undefined, JNum st, JHeaders hs]]"
    by simp
qed

text \<open>
  An \<^verbatim>\<open>'error'\<close> event that carries a string instead of an Error, before any
  response; and a 204 response whose two chunks are empty.
\<close>

theorem success_shape_witness:
  "map_option (\<lambda>s. (cb_calls (cleanUp (JStr (js ''boom'')) Undefined s),
                     callbacks (cleanUp (JStr (js ''boom'')) Undefined s),
                     callbacks (run (Response 204 [] # map Data [[], []] @ [End]) s)))
     (issue (localhost (js ''http'')) no_config get_root) =
   Some ([[Undefined, Undefined, JNum 0, JHeaders []]],
         [[Undefined, Undefined, JNum 0, JHeaders []]],
         [[Undefined, Undefined, JNum 204, JHeaders []]])"
proof -
  obtain c s where s: "request no_query c get_root = Inr s"
    "issue (localhost (js ''http'')) no_config get_root = Some s"
    using issue_Some [of "localhost (js ''http'')" no_config get_root]
    by (auto simp: localhost_def)
  have f: "fresh s" using s(1) by (rule request_fresh)
  show ?thesis
    using success_shape
      [where err = "JStr (js ''boom'')" and s = s and resp = Undefined and qs = no_query
         and c = c and p = get_root and ?s0.0 = s and ds = "[[], []]" and st = 204
         and hs = "[]"]
      f s(1)
    by (simp add: s(2) fresh_def)
qed

section \<open>One request: what is sent, cancelled and logged\<close>

text \<open>
  Claim C6. Every request that is issued sets the header \<^verbatim>\<open>Content-Length\<close>: to the
  number of bytes of the UTF-8 encoding of the body when there is a body, to 0 when
  there is none (for the empty string the two agree).
\<close>

theorem content_length_header:
  "request qs c p = Inr s \<Longrightarrow>
   emitted_header (client_request s) ''Content-Length'' =
     Some (JNum (case p_body p of None \<Rightarrow> 0 | Some b \<Rightarrow> int (byteLength b)))"
  by (auto simp: request_def Let_def emitted_header_def setHeader_def
      split: option.splits if_splits)

text \<open>
  A body of three characters, the second an e with acute accent (U+00E9, two bytes in
  UTF-8); and no body.
\<close>

theorem content_length_header_witness:
  "map_option (\<lambda>s. emitted_header (client_request s) ''Content-Length'')
     (issue (localhost (js ''http'')) no_config
        (get_root \<lparr> p_body := Some [0x7B, 0xE9, 0x7D] \<rparr>)) = Some (Some (JNum 4)) \<and>
   map_option (\<lambda>s. emitted_header (client_request s) ''Content-Length'')
     (issue (localhost (js ''http'')) no_config get_root) = Some (Some (JNum 0))"
proof -
  obtain c s where s:
    "request no_query c (get_root \<lparr> p_body := Some [0x7B, 0xE9, 0x7D] \<rparr>) = Inr s"
    "issue (localhost (js ''http'')) no_config
       (get_root \<lparr> p_body := Some [0x7B, 0xE9, 0x7D] \<rparr>) = Some s"
    using issue_Some [of "localhost (js ''http'')" no_config
        "get_root \<lparr> p_body := Some [0x7B, 0xE9, 0x7D] \<rparr>"]
    by (auto simp: localhost_def)
  obtain c' s' where s': "request no_query c' get_root = Inr s'"
    "issue (localhost (js ''http'')) no_config get_root = Some s'"
    using issue_Some [of "localhost (js ''http'')" no_config get_root]
    by (auto simp: localhost_def)
  have b: "p_body get_root = None"
    by (simp add: get_root_def)
  show ?thesis
    using content_length_header [OF s(1)] content_length_header [OF s'(1)]
    by (simp add: s(2) s'(2) b)
qed

lemma cancel_fixed: "done_or_aborted s \<Longrightarrow> cancel s = s"
  by (auto simp: done_or_aborted_def cancel_def abort_def)

lemma done_or_aborted_cancel: "done_or_aborted (cancel s)"
  by (auto simp: done_or_aborted_def cancel_def abort_def)

lemma done_or_aborted_step: "done_or_aborted s \<Longrightarrow> done_or_aborted (step e s)"
  by (cases e) (auto simp: done_or_aborted_def step_defs abort_def split: option.splits if_splits)

lemma done_or_aborted_run: "done_or_aborted s \<Longrightarrow> done_or_aborted (run evs s)"
  by (induction evs arbitrary: s) (auto simp: done_or_aborted_step)

lemma cancelled_run: "CallCancel \<in> set evs \<Longrightarrow> done_or_aborted (run evs s)"
proof (induction evs arbitrary: s)
  case Nil
  then show ?case by simp
next
  case (Cons e es)
  then show ?case
    by (cases "e = CallCancel") (auto simp: done_or_aborted_cancel done_or_aborted_run)
qed

lemma listening_done: "listening s \<Longrightarrow> cb_called s \<Longrightarrow> done_or_aborted s"
  by (auto simp: listening_def done_or_aborted_def)

text \<open>
  Claim C7. At any moment of a request, calling the cancellation function twice
  leaves the request, and all it has done to the outside, as calling it once does; and
  once a terminal signal was delivered or the function was called before, calling it
  changes nothing.
\<close>

theorem cancel_idempotent:
  assumes "request qs c p = Inr s0"
  shows "cancel (cancel (run evs s0)) = cancel (run evs s0) \<and>
         (terminal_signal False evs \<or> CallCancel \<in> set evs \<longrightarrow>
            cancel (run evs s0) = run evs s0)"
proof -
  have l: "listening s0" and f: "fresh s0"
    using assms by (simp_all add: request_fresh fresh_listening)
  have "cb_called (run evs s0) = terminal_signal False evs"
    using run_cb_called [OF l, of evs] f by (simp add: fresh_def)
  then have "terminal_signal False evs \<Longrightarrow> done_or_aborted (run evs s0)"
    using listening_done [OF run_listening [OF l, of evs]] by simp
  then show ?thesis
    using cancelled_run [of evs s0] cancel_fixed done_or_aborted_cancel [of "run evs s0"]
    by auto
qed

text \<open>Cancelling after the response has ended, and twice while it is being received.\<close>

theorem cancel_idempotent_witness:
  "map_option
     (\<lambda>s. (cancel (run [Response 200 [], End] s) = run [Response 200 [], End] s,
           cancel (cancel (run [Response 200 []] s)) = cancel (run [Response 200 []] s),
           cr_aborted (client_request (cancel (run [Response 200 []] s)))))
     (issue (localhost (js ''http'')) no_config get_root) = Some (True, True, True)"
proof -
  obtain c s where s: "request no_query c get_root = Inr s"
    "issue (localhost (js ''http'')) no_config get_root = Some s"
    using issue_Some [of "localhost (js ''http'')" no_config get_root]
    by (auto simp: localhost_def)
  have f: "fresh s" using s(1) by (rule request_fresh)
  have a: "cr_aborted (client_request (cancel (run [Response 200 []] s)))"
    using f by (simp add: fresh_def on_response_def Let_def cancel_def abort_def)
  show ?thesis
    using cancel_idempotent [OF s(1), of "[Response 200 [], End]"]
      cancel_idempotent [OF s(1), of "[Response 200 []]"] a
    by (simp add: s(2))
qed

lemma log_response_step:
  "listening s \<Longrightarrow> list_all (\<lambda>e. log_response e = Null) (trace_log s) \<Longrightarrow>
   list_all (\<lambda>e. log_response e = Null) (trace_log (step e s))"
  by (cases e) (auto simp: listening_def step_defs split: option.splits if_splits)

text \<open>Whatever happens to a request, every call of the log has null as its response.\<close>

lemma log_response_run:
  "listening s \<Longrightarrow> list_all (\<lambda>e. log_response e = Null) (trace_log s) \<Longrightarrow>
   list_all (\<lambda>e. log_response e = Null) (trace_log (run evs s))"
  by (induction evs arbitrary: s) (auto simp: log_response_step step_listening)

text \<open>
  Claim C8 (the log receives the raw response of the attempt). \<^verbatim>\<open>cleanUp\<close> calls
  \<^verbatim>\<open>logRequest(request)\<close> after it has set \<^verbatim>\<open>request\<close> to null: for a response with
  status 200 and the body \<^verbatim>\<open>ok\<close> the log is called once, with null where the response
  belongs, while the callback receives the body.
\<close>

theorem log_receives_null:
  "map_option (\<lambda>s. (map (\<lambda>e. (log_response e, log_status e))
                       (trace_log (run [Response 200 [], Data (js ''ok''), End] s)),
                     callbacks (run [Response 200 [], Data (js ''ok''), End] s)))
     (issue (localhost (js ''http'')) no_config get_root) =
   Some ([(Null, 200)], [[Undefined, JStr (js ''ok''), JNum 200, JHeaders []]])"
proof -
  obtain c s where s: "request no_query c get_root = Inr s"
    "issue (localhost (js ''http'')) no_config get_root = Some s"
    using issue_Some [of "localhost (js ''http'')" no_config get_root]
    by (auto simp: localhost_def)
  have f: "fresh s" using s(1) by (rule request_fresh)
  then show ?thesis
    unfolding s(2) by (simp add: fresh_def step_defs js_def)
qed

end
